theory Spec2Isabelle
  imports Main "HOL-Library.Sublist"
begin

section \<open>The chat endpoint \<^verbatim>\<open>server/api/models/chat/index.post.ts\<close>\<close>

text \<open>
  The handler answers a chat request either from a knowledge base (retrieval, optional
  reranking, one prompt to the chat model) or, without one, from a chat model bound to tools.
  Everything the handler awaits from outside this file (the database, the embedding and
  retriever factories, the coreference resolver, the reranker, the chat model, the tool
  registries) is a field of the record \<open>env\<close>; every call of such a collaborator and every
  write to the response is logged, in program order, in a trace.
\<close>

subsection \<open>Request data (\<^verbatim>\<open>RequestBody\<close>, lines 25-36)\<close>

text \<open>
  \<open>role\<close> is a string: the declared type is \<^verbatim>\<open>'user' | 'assistant'\<close>, but the body is parsed
  JSON and \<^verbatim>\<open>normalizeMessages\<close> has a silent third case. \<open>toolCallId\<close> is optional.
\<close>

record message =
  role :: string
  content :: string
  toolCallId :: "string option"
  toolResult :: bool

text \<open>
  \<open>knowledgebaseId\<close> is \<open>None\<close> when the field is absent or null. \<open>stream\<close> is declared
  \<^verbatim>\<open>any\<close> and only ever tested for truthiness, which is what the boolean stands for.
\<close>

record requestBody =
  knowledgebaseId :: "int option"
  model :: string
  family :: string
  messages :: "message list"
  stream :: bool

subsection \<open>Message helpers (lines 72-91)\<close>

datatype base_message =
    ToolMessage string "string option"
  | HumanMessage string
  | AIMessage string

fun join_with :: "string \<Rightarrow> string list \<Rightarrow> string" where
  "join_with sep [] = []"
| "join_with sep [x] = x"
| "join_with sep (x # y # ys) = x @ sep @ join_with sep (y # ys)"

definition newline :: string where
  "newline = [CHR 0x0A]"

definition serializeMessages :: "message list \<Rightarrow> string" where
  "serializeMessages ms = join_with newline (map (\<lambda>m. role m @ '': '' @ content m) ms)"

definition transformMessages :: "message list \<Rightarrow> (string \<times> string) list" where
  "transformMessages ms = map (\<lambda>m. (role m, content m)) ms"

text \<open>
  \<^verbatim>\<open>new ToolMessage(message.content, message.toolCallId!)\<close>: the \<^verbatim>\<open>!\<close> is erased at compile
  time and the constructor stores what it is given, so an absent id stays absent.
\<close>

fun normalizeMessages :: "message list \<Rightarrow> base_message list" where
  "normalizeMessages [] = []"
| "normalizeMessages (m # ms) =
     (if toolResult m then ToolMessage (content m) (toolCallId m) # normalizeMessages ms
      else if role m = ''user'' then HumanMessage (content m) # normalizeMessages ms
      else if role m = ''assistant'' then AIMessage (content m) # normalizeMessages ms
      else normalizeMessages ms)"

subsection \<open>Errors, documents, model output\<close>

text \<open>
  \<open>TypeError\<close> is what JavaScript raises on reading a property of \<^verbatim>\<open>undefined\<close> or calling
  a value that is no function; \<open>Thrown\<close> is any other exception, with its message.
\<close>

datatype error = TypeError | Thrown string

record knowledgeBase =
  kb_id :: int
  kb_name :: string
  kb_embedding :: "string option"

record document =
  pageContent :: string
  metadata :: string

text \<open>Message content is a string or an array of parts; \<open>None\<close> below is \<^verbatim>\<open>undefined\<close>.\<close>

record part =
  part_type :: string
  part_text :: "string option"

datatype content_value = Text string | Parts "part list"

record tool_call =
  call_name :: string
  call_args :: string
  call_id :: "string option"

text \<open>A model reply and a streamed chunk of one (\<^verbatim>\<open>GatheredResponse\<close>, lines 43-46).\<close>

record ai_message =
  reply_content :: "content_value option"
  tool_calls :: "tool_call list option"

text \<open>
  An async iterable of chunks, as consumed by \<^verbatim>\<open>for await\<close>: the chunks that arrive and,
  when the iteration then throws, the error.
\<close>

record chunk_stream =
  chunks :: "ai_message list"
  failure :: "error option"

record tool =
  tool_name :: string
  tool_description :: string

record tool_result =
  tool_call_id :: "string option"
  result_content :: "content_value option"

record coref_result =
  coref_output :: "string option"

record rerank_options =
  apiKey :: "string option"
  baseUrl :: "string option"
  rerank_model :: "string option"
  topN :: nat

record prompt_values =
  question :: string
  chatHistory :: string
  context_slot :: string

text \<open>
  A chat model as \<^verbatim>\<open>createChatModel\<close> returns it, and what \<^verbatim>\<open>llm.bind({tools})\<close> makes of it:
  a binding around the same model, which is no instance of \<^verbatim>\<open>ChatOllama\<close> any more.
\<close>

record chat_model =
  chat_handle :: string
  is_ChatOllama :: bool

datatype llm = ChatModel chat_model | RunnableBinding chat_model "tool list"

fun bind_tools :: "llm \<Rightarrow> tool list \<Rightarrow> llm" where
  "bind_tools (ChatModel m) ts = RunnableBinding m ts"
| "bind_tools (RunnableBinding m old) ts = RunnableBinding m ts"

fun instanceof_ChatOllama :: "llm \<Rightarrow> bool" where
  "instanceof_ChatOllama (ChatModel m) = is_ChatOllama m"
| "instanceof_ChatOllama (RunnableBinding m ts) = False"

subsection \<open>What the handler writes and whom it calls\<close>

text \<open>
  One object written to the response stream (\<^verbatim>\<open>JSON.stringify\<close> of it, followed by a blank
  line): a model delta \<^verbatim>\<open>{message: {role: 'assistant', content}}\<close>, the documents
  \<^verbatim>\<open>{type: "relevant_documents", relevant_documents}\<close>, or a tool result
  \<^verbatim>\<open>{message: {role: "user", type: "tool_result", tool_use_id, content}}\<close>.
\<close>

datatype outbound =
    TextDelta "content_value option"
  | RelevantDocuments "document list"
  | ToolResult "string option" "content_value option"

text \<open>
  What the handler returns: nothing (after setting a status), the JSON body
  \<^verbatim>\<open>{message: {role: 'assistant', content, relevant_docs}}\<close>, or a stream, with the error
  that ended it if one did. The objects written to a stream are logged in the trace.
\<close>

datatype response =
    NoBody
  | MessageBody "content_value option" "document list option"
  | EventStream "error option"

datatype call =
    FindUnique int
  | SetResponseStatus nat string
  | CreateEmbeddings "string option"
  | CreateRetriever string string
  | CreateChatModel string string
  | ResolveCoreference string "base_message list" "string option"
  | GetRelevantDocuments string string
  | CompressDocuments rerank_options "document list" string
  | ChainInvoke chat_model prompt_values
  | ChainStream chat_model prompt_values
  | SetEventStreamResponse
  | Connect
  | ClientListTools
  | McpListTools
  | LlmInvoke llm "(string \<times> string) list"
  | LlmStream llm "(string \<times> string) list"
  | InvokeTool tool tool_call
  | Emit outbound

text \<open>
  The collaborators. Each returns \<open>Inl\<close> when it throws. Embeddings and retrievers are
  opaque handles. \<open>findUnique\<close> is the lookup as a function of the id the request carries.
  \<open>MODEL_FAMILIES_anthropic\<close> is a constant of \<^verbatim>\<open>~/config\<close>.
\<close>

record env =
  OPENAI_API_KEY :: "string option"
  COHERE_API_KEY :: "string option"
  COHERE_BASE_URL :: "string option"
  COHERE_MODEL :: "string option"
  MODEL_FAMILIES_anthropic :: string
  findUnique :: "int \<Rightarrow> error + knowledgeBase option"
  createEmbeddings :: "string option \<Rightarrow> error + string"
  createRetriever :: "string \<Rightarrow> string \<Rightarrow> error + string"
  createChatModel :: "string \<Rightarrow> string \<Rightarrow> error + chat_model"
  resolveCoreference :: "string \<Rightarrow> base_message list \<Rightarrow> string option \<Rightarrow> error + coref_result"
  getRelevantDocuments :: "string \<Rightarrow> string \<Rightarrow> error + document list"
  compressDocuments :: "rerank_options \<Rightarrow> document list \<Rightarrow> string \<Rightarrow> error + document list"
  chainInvoke :: "chat_model \<Rightarrow> string \<Rightarrow> error + ai_message option"
  chainStream :: "chat_model \<Rightarrow> string \<Rightarrow> error + chunk_stream"
  connect :: "error + unit"
  clientListTools :: "error + tool list"
  mcpListTools :: "error + tool list option"
  llmInvoke :: "llm \<Rightarrow> (string \<times> string) list \<Rightarrow> error + ai_message option"
  llmStream :: "llm \<Rightarrow> (string \<times> string) list \<Rightarrow> error + chunk_stream"
  concatChunks :: "ai_message \<Rightarrow> ai_message \<Rightarrow> ai_message"
  invokeTool :: "tool \<Rightarrow> tool_call \<Rightarrow> error + tool_result option"

text \<open>
  A computation: its value or the exception that ended it, and the calls made up to there.
\<close>

type_synonym 'a io = "(error + 'a) \<times> call list"

definition ret :: "'a \<Rightarrow> 'a io" where
  "ret x = (Inr x, [])"

definition throw :: "error \<Rightarrow> 'a io" where
  "throw e = (Inl e, [])"

definition call :: "call \<Rightarrow> error + 'a \<Rightarrow> 'a io" where
  "call c r = (r, [c])"

definition bnd :: "'a io \<Rightarrow> ('a \<Rightarrow> 'b io) \<Rightarrow> 'b io" where
  "bnd m f =
     (case m of
        (Inl e, t) \<Rightarrow> (Inl e, t)
      | (Inr x, t) \<Rightarrow> (case f x of (r, t') \<Rightarrow> (r, t @ t')))"

definition emitted :: "call list \<Rightarrow> outbound list" where
  "emitted t = List.map_filter (\<lambda>c. case c of Emit e \<Rightarrow> Some e | _ \<Rightarrow> None) t"

subsection \<open>Strings the handler builds\<close>

text \<open>\<open>digits\<close> is the decimal numeral of a non-negative integer.\<close>

function digits :: "int \<Rightarrow> string" where
  "digits n =
     (if n < 10 then [''0123456789'' ! nat n]
      else digits (n div 10) @ [''0123456789'' ! nat (n mod 10)])"
  by pat_completeness auto
termination
  by (relation "measure nat") auto

declare digits.simps [simp del]

definition formatDocumentsAsString :: "document list \<Rightarrow> string" where
  "formatDocumentsAsString docs = join_with (newline @ newline) (map pageContent docs)"

text \<open>\<^verbatim>\<open>SYSTEM_TEMPLATE\<close> (lines 52-70) with its three slots filled.\<close>

definition SYSTEM_TEMPLATE :: "prompt_values \<Rightarrow> string" where
  "SYSTEM_TEMPLATE v =
     ''Answer the user'' @ [CHR 0x27] @ ''s question based on the context below.'' @ newline
     @ ''Present your answer in a structured Markdown format.'' @ newline
     @ newline
     @ ''If the context doesn'' @ [CHR 0x27] @ ''t contain any relevant information to the question, ''
     @ ''don'' @ [CHR 0x27] @ ''t make something up and just say ''
     @ [CHR 0x22] @ ''I don'' @ [CHR 0x27] @ ''t know'' @ [CHR 0x22] @ '':'' @ newline
     @ newline
     @ ''<context>'' @ newline
     @ context_slot v @ newline
     @ ''</context>'' @ newline
     @ newline
     @ ''<chat_history>'' @ newline
     @ chatHistory v @ newline
     @ ''</chat_history>'' @ newline
     @ newline
     @ ''<question>'' @ newline
     @ question v @ newline
     @ ''</question>'' @ newline
     @ newline
     @ ''Answer:'' @ newline"

text \<open>JavaScript truthiness of an environment variable: absent and empty are falsy.\<close>

definition truthy_string :: "string option \<Rightarrow> bool" where
  "truthy_string s = (case s of None \<Rightarrow> False | Some x \<Rightarrow> x \<noteq> [])"

subsection \<open>JavaScript numbers\<close>

text \<open>
  The calculator computes on JavaScript numbers, and a template literal prints one. They
  are IEEE 754 double-precision values. A finite
  non-zero number is \<open>Finite m e\<close>, the value \<open>m * 2 ^ e\<close>; the operations return it with
  \<open>m\<close> odd, of at most 53 bits, and \<open>e \<ge> - 1074\<close>. Zero has a sign. Each operation computes
  the exact result and rounds it to the nearest double, ties to the even mantissa, a result
  of \<open>2 ^ 1024\<close> or more becoming an infinity.
\<close>

datatype number = NaN | Infinity bool | Zero bool | Finite int int

text \<open>The number of bits of a positive integer, and an integer stripped of its trailing zero bits.\<close>

function bitlen :: "int \<Rightarrow> int" where
  "bitlen m = (if m \<le> 0 then 0 else 1 + bitlen (m div 2))"
  by pat_completeness auto
termination
  by (relation "measure nat") auto

declare bitlen.simps [simp del]

function trim :: "int \<Rightarrow> int \<Rightarrow> int \<times> int" where
  "trim m e = (if m \<le> 0 then (0, 0) else if even m then trim (m div 2) (e + 1) else (m, e))"
  by pat_completeness auto
termination
  by (relation "measure (\<lambda>(m, e). nat m)") auto

declare trim.simps [simp del]

definition pack :: "bool \<Rightarrow> int \<Rightarrow> int \<Rightarrow> number" where
  "pack neg m e =
     (case trim m e of
        (m', e') \<Rightarrow>
          if m' = 0 then Zero neg
          else if e' + bitlen m' > 1024 then Infinity neg
          else Finite (if neg then - m' else m') e')"

text \<open>
  \<open>round_dyadic neg m e sticky\<close> rounds the magnitude \<open>(m + d) * 2 ^ e\<close>, where \<open>d\<close> is 0, or
  some fraction strictly between 0 and 1 when \<open>sticky\<close> holds, to the double of sign \<open>neg\<close>.
  With \<open>sticky\<close>, \<open>m\<close> has more than 54 bits.
\<close>

definition round_dyadic :: "bool \<Rightarrow> int \<Rightarrow> int \<Rightarrow> bool \<Rightarrow> number" where
  "round_dyadic neg m e sticky =
     (let t = max (e + bitlen m - 53) (- 1074) in
      if t \<le> e then pack neg m e
      else
        let s = nat (t - e);
            q = m div 2 ^ s;
            r = m mod 2 ^ s;
            half = 2 ^ (s - 1);
            up = (r > half \<or> (r = half \<and> (sticky \<or> odd q)))
        in pack neg (if up then q + 1 else q) t)"

text \<open>The Number value of an integer literal.\<close>

definition of_int_number :: "int \<Rightarrow> number" where
  "of_int_number i = round_dyadic (i < 0) \<bar>i\<bar> 0 False"

fun negate :: "number \<Rightarrow> number" where
  "negate NaN = NaN"
| "negate (Infinity s) = Infinity (\<not> s)"
| "negate (Zero s) = Zero (\<not> s)"
| "negate (Finite m e) = Finite (- m) e"

fun mantissa :: "number \<Rightarrow> int" where
  "mantissa (Finite m e) = m"
| "mantissa x = 0"

fun exponent :: "number \<Rightarrow> int" where
  "exponent (Finite m e) = e"
| "exponent x = 0"

fun negative :: "number \<Rightarrow> bool" where
  "negative (Finite m e) = (m < 0)"
| "negative (Zero s) = s"
| "negative (Infinity s) = s"
| "negative NaN = False"

fun number_add :: "number \<Rightarrow> number \<Rightarrow> number" where
  "number_add NaN y = NaN"
| "number_add x NaN = NaN"
| "number_add (Infinity s) (Infinity s') = (if s = s' then Infinity s else NaN)"
| "number_add (Infinity s) y = Infinity s"
| "number_add x (Infinity s') = Infinity s'"
| "number_add x y =
     (let e = min (exponent x) (exponent y);
          total = mantissa x * 2 ^ nat (exponent x - e) + mantissa y * 2 ^ nat (exponent y - e)
      in if total = 0 then Zero (negative x \<and> negative y)
         else round_dyadic (total < 0) \<bar>total\<bar> e False)"

definition number_sub :: "number \<Rightarrow> number \<Rightarrow> number" where
  "number_sub x y = number_add x (negate y)"

fun number_mul :: "number \<Rightarrow> number \<Rightarrow> number" where
  "number_mul NaN y = NaN"
| "number_mul x NaN = NaN"
| "number_mul (Infinity s) (Infinity s') = Infinity (s \<noteq> s')"
| "number_mul (Infinity s) y = (if mantissa y = 0 then NaN else Infinity (s \<noteq> negative y))"
| "number_mul x (Infinity s') = (if mantissa x = 0 then NaN else Infinity (negative x \<noteq> s'))"
| "number_mul x y =
     round_dyadic (negative x \<noteq> negative y) \<bar>mantissa x * mantissa y\<bar>
       (exponent x + exponent y) False"

fun number_div :: "number \<Rightarrow> number \<Rightarrow> number" where
  "number_div NaN y = NaN"
| "number_div x NaN = NaN"
| "number_div (Infinity s) (Infinity s') = NaN"
| "number_div (Infinity s) y = Infinity (s \<noteq> negative y)"
| "number_div x (Infinity s') = Zero (negative x \<noteq> s')"
| "number_div x y =
     (if mantissa y = 0
      then (if mantissa x = 0 then NaN else Infinity (negative x \<noteq> negative y))
      else
        let k = nat (bitlen \<bar>mantissa y\<bar> + 55);
            q = (\<bar>mantissa x\<bar> * 2 ^ k) div \<bar>mantissa y\<bar>;
            r = (\<bar>mantissa x\<bar> * 2 ^ k) mod \<bar>mantissa y\<bar>
        in round_dyadic (negative x \<noteq> negative y) q (exponent x - exponent y - int k) (r \<noteq> 0))"

text \<open>
  \<^verbatim>\<open>Number::toString\<close>, which a template literal applies: the shortest decimal \<open>s * 10 ^ (n - k)\<close>
  of \<open>k\<close> digits that rounds to the number, the nearest such, printed plainly for
  \<open>- 6 < n \<le> 21\<close> and with an exponent otherwise. The value \<open>m * 2 ^ e\<close> is the fraction
  \<open>numer m e / denom e\<close>; \<open>decimal_exponent a b\<close> is the \<open>n\<close> with
  \<open>10 ^ (n - 1) \<le> a / b < 10 ^ n\<close>; \<open>round_decimal s p\<close> is the double nearest to
  \<open>s * 10 ^ p\<close>; \<open>candidate\<close> tries the two \<open>k\<close>-digit decimals around the value. Seventeen
  digits always suffice.
\<close>

definition numer :: "int \<Rightarrow> int \<Rightarrow> int" where
  "numer m e = m * 2 ^ nat e"

definition denom :: "int \<Rightarrow> int" where
  "denom e = 2 ^ nat (- e)"

function leading_zeros :: "int \<Rightarrow> int \<Rightarrow> int" where
  "leading_zeros a b = (if a \<le> 0 \<or> b \<le> a * 10 then 0 else 1 + leading_zeros (a * 10) b)"
  by pat_completeness auto
termination
  by (relation "measure (\<lambda>(a, b). nat (b - a))") auto

declare leading_zeros.simps [simp del]

definition decimal_exponent :: "int \<Rightarrow> int \<Rightarrow> int" where
  "decimal_exponent a b =
     (if b \<le> a then int (length (digits (a div b))) else - leading_zeros a b)"

definition round_decimal :: "int \<Rightarrow> int \<Rightarrow> number" where
  "round_decimal s p =
     (if 0 \<le> p then round_dyadic False (s * 10 ^ nat p) 0 False
      else
        let d = 10 ^ nat (- p);
            k = nat (bitlen d + 55);
            q = (s * 2 ^ k) div d;
            r = (s * 2 ^ k) mod d
        in round_dyadic False q (- int k) (r \<noteq> 0))"

definition candidate :: "int \<Rightarrow> int \<Rightarrow> int \<Rightarrow> int \<Rightarrow> (int \<times> int) option" where
  "candidate m e k n =
     (let p = n - k;
          a = numer m e * 10 ^ nat (- p);
          b = denom e * 10 ^ nat p;
          lo = a div b;
          hi = lo + 1;
          twice = 2 * (a mod b);
          ok_lo = (round_decimal lo p = Finite m e);
          ok_hi = (round_decimal hi p = Finite m e);
          pick_hi = (ok_hi \<and> (twice > b \<or> (twice = b \<and> odd lo) \<or> \<not> ok_lo))
      in if pick_hi then Some (if hi = 10 ^ nat k then (10 ^ nat (k - 1), n + 1) else (hi, n))
         else if ok_lo then Some (lo, n)
         else None)"

function shortest :: "int \<Rightarrow> int \<Rightarrow> int \<Rightarrow> int \<Rightarrow> int \<times> int" where
  "shortest m e k n =
     (case candidate m e k n of
        Some sn \<Rightarrow> sn
      | None \<Rightarrow>
          if 17 \<le> k
          then (numer m e * 10 ^ nat (k - n) div (denom e * 10 ^ nat (n - k)), n)
          else shortest m e (k + 1) n)"
  by pat_completeness auto
termination
  by (relation "measure (\<lambda>(m, e, k, n). nat (17 - k))") auto

declare shortest.simps [simp del]

definition exponent_part :: "int \<Rightarrow> string" where
  "exponent_part x = (if x < 0 then ''e-'' @ digits (- x) else ''e+'' @ digits x)"

definition format_decimal :: "int \<Rightarrow> int \<Rightarrow> string" where
  "format_decimal s n =
     (let ds = digits s; k = int (length ds) in
      if k \<le> n \<and> n \<le> 21 then ds @ replicate (nat (n - k)) CHR ''0''
      else if 0 < n \<and> n \<le> 21 then take (nat n) ds @ ''.'' @ drop (nat n) ds
      else if - 6 < n \<and> n \<le> 0 then ''0.'' @ replicate (nat (- n)) CHR ''0'' @ ds
      else if k = 1 then ds @ exponent_part (n - 1)
      else take 1 ds @ ''.'' @ drop 1 ds @ exponent_part (n - 1))"

fun ToString :: "number \<Rightarrow> string" where
  "ToString NaN = ''NaN''"
| "ToString (Infinity neg) = (if neg then ''-Infinity'' else ''Infinity'')"
| "ToString (Zero neg) = ''0''"
| "ToString (Finite m e) =
     (case round_dyadic False \<bar>m\<bar> e False of
        Finite m' e' \<Rightarrow>
          (if m < 0 then ''-'' else '''')
          @ (case shortest m' e' 1 (decimal_exponent (numer m' e') (denom e')) of
               (s, n) \<Rightarrow> format_decimal s n)
      | Zero s \<Rightarrow> ''0''
      | Infinity s \<Rightarrow> (if m < 0 then ''-Infinity'' else ''Infinity'')
      | NaN \<Rightarrow> ''NaN'')"

subsection \<open>The knowledge-base branch (lines 97-196)\<close>

text \<open>\<^verbatim>\<open>messages[messages.length - 1].content\<close>: on an empty list the read of \<^verbatim>\<open>.content\<close> throws.\<close>

definition lastContent :: "message list \<Rightarrow> string io" where
  "lastContent ms = (if ms = [] then throw TypeError else ret (content (last ms)))"

text \<open>\<^verbatim>\<open>reformulatedResult.output || query\<close>: an absent or empty output is falsy.\<close>

definition orQuery :: "string option \<Rightarrow> string \<Rightarrow> string" where
  "orQuery out query = (case out of None \<Rightarrow> query | Some s \<Rightarrow> if s = [] then query else s)"

definition rerankConfigured :: "env \<Rightarrow> bool" where
  "rerankConfigured e =
     ((truthy_string (COHERE_API_KEY e) \<or> truthy_string (COHERE_BASE_URL e))
      \<and> truthy_string (COHERE_MODEL e))"

definition rerankOptions :: "env \<Rightarrow> rerank_options" where
  "rerankOptions e =
     \<lparr>apiKey = COHERE_API_KEY e, baseUrl = COHERE_BASE_URL e,
      rerank_model = COHERE_MODEL e, topN = 4\<rparr>"

text \<open>
  The generator of lines 177-195: one delta per chunk whose content is defined, then the
  documents; a chunk iteration that throws ends the stream before the documents.
\<close>

definition ragDeltas :: "ai_message list \<Rightarrow> outbound list" where
  "ragDeltas cs = map (\<lambda>c. TextDelta (reply_content c)) (filter (\<lambda>c. reply_content c \<noteq> None) cs)"

definition ragStream :: "chunk_stream \<Rightarrow> document list \<Rightarrow> response io" where
  "ragStream response rerankedDocuments =
     (case failure response of
        Some e \<Rightarrow> (Inr (EventStream (Some e)), map Emit (ragDeltas (chunks response)))
      | None \<Rightarrow>
          (Inr (EventStream None),
           map Emit (ragDeltas (chunks response) @ [RelevantDocuments rerankedDocuments])))"

text \<open>
  Lines 124-140: retrieval with the reformulated query, then the reranker when it is
  configured. Both lists are kept: \<^verbatim>\<open>relevant_docs\<close> and \<^verbatim>\<open>rerankedDocuments\<close>.
\<close>

definition retrieve :: "env \<Rightarrow> string \<Rightarrow> string \<Rightarrow> (document list \<times> document list) io" where
  "retrieve e retriever reformulatedQuery =
     bnd (call (GetRelevantDocuments retriever reformulatedQuery)
            (getRelevantDocuments e retriever reformulatedQuery))
       (\<lambda>relevant_docs.
     bnd (if rerankConfigured e
          then call (CompressDocuments (rerankOptions e) relevant_docs reformulatedQuery)
                 (compressDocuments e (rerankOptions e) relevant_docs reformulatedQuery)
          else ret relevant_docs)
       (\<lambda>rerankedDocuments.
     ret (relevant_docs, rerankedDocuments)))"

text \<open>
  Lines 142-196: the chain (the three prompt slots, the template, the chat model) is invoked
  or streamed with \<^verbatim>\<open>question: query\<close>; the context slot is closed over
  \<^verbatim>\<open>rerankedDocuments\<close>.
\<close>

definition respond ::
  "env \<Rightarrow> requestBody \<Rightarrow> chat_model \<Rightarrow> string \<Rightarrow> document list \<Rightarrow> document list \<Rightarrow> response io" where
  "respond e req chat query relevant_docs rerankedDocuments =
     (let input = \<lparr>question = query, chatHistory = serializeMessages (messages req),
                   context_slot = formatDocumentsAsString rerankedDocuments\<rparr> in
      if \<not> stream req then
        bnd (call (ChainInvoke chat input) (chainInvoke e chat (SYSTEM_TEMPLATE input)))
          (\<lambda>response.
        ret (MessageBody (case response of None \<Rightarrow> None | Some r \<Rightarrow> reply_content r)
               (Some relevant_docs)))
      else
        bnd (Inr (), [SetEventStreamResponse])
          (\<lambda>u.
        bnd (call (ChainStream chat input) (chainStream e chat (SYSTEM_TEMPLATE input)))
          (\<lambda>response.
        ragStream response rerankedDocuments)))"

text \<open>
  Lines 97-122, and the two steps above. The id of the request and the id of the stored
  knowledge base are integers; the template literals of lines 105 and 110 print the
  JavaScript number each one is, with \<^verbatim>\<open>Number::toString\<close>.
\<close>

definition knowledgeBaseChat :: "env \<Rightarrow> requestBody \<Rightarrow> int \<Rightarrow> response io" where
  "knowledgeBaseChat e req kbId =
     bnd (call (FindUnique kbId) (findUnique e kbId)) (\<lambda>knowledgebase.
     case knowledgebase of
       None \<Rightarrow>
         (Inr NoBody,
          [SetResponseStatus 404 (''Knowledge base with id '' @ ToString (of_int_number kbId) @ '' not found'')])
     | Some kb \<Rightarrow>
         bnd (call (CreateEmbeddings (kb_embedding kb)) (createEmbeddings e (kb_embedding kb)))
           (\<lambda>embeddings.
         bnd (call (CreateRetriever embeddings (''collection_'' @ ToString (of_int_number (kb_id kb))))
                (createRetriever e embeddings (''collection_'' @ ToString (of_int_number (kb_id kb)))))
           (\<lambda>retriever.
         bnd (call (CreateChatModel (model req) (family req))
                (createChatModel e (model req) (family req)))
           (\<lambda>chat.
         bnd (lastContent (messages req))
           (\<lambda>query.
         bnd (call (ResolveCoreference query (normalizeMessages (messages req)) (OPENAI_API_KEY e))
                (resolveCoreference e query (normalizeMessages (messages req)) (OPENAI_API_KEY e)))
           (\<lambda>reformulatedResult.
         bnd (retrieve e retriever (orQuery (coref_output reformulatedResult) query))
           (\<lambda>docs.
         respond e req chat query (fst docs) (snd docs))))))))"

subsection \<open>The tool branch (lines 198-348)\<close>

text \<open>
  The calculator tool (lines 198-226). Its schema admits the four operation names and two
  numbers; the function itself still has the branch for any other name.
\<close>

definition calculator :: "string \<Rightarrow> number \<Rightarrow> number \<Rightarrow> error + string" where
  "calculator operation number1 number2 =
     (if operation = ''add'' then Inr (ToString (number_add number1 number2))
      else if operation = ''subtract'' then Inr (ToString (number_sub number1 number2))
      else if operation = ''multiply'' then Inr (ToString (number_mul number1 number2))
      else if operation = ''divide'' then Inr (ToString (number_div number1 number2))
      else Inl (Thrown ''Invalid operation.''))"

definition calculatorTool :: tool where
  "calculatorTool =
     \<lparr>tool_name = ''calculator'', tool_description = ''Can perform mathematical operations.''\<rparr>"


text \<open>
  \<^verbatim>\<open>toolsMap\<close> (lines 265-271) is a plain object filled by \<^verbatim>\<open>reduce\<close>, a later tool replacing
  an earlier one of the same name. Reading \<^verbatim>\<open>toolsMap[name]\<close> also finds what every object
  inherits from \<^verbatim>\<open>Object.prototype\<close>: a truthy value that is no tool, so that calling its
  \<^verbatim>\<open>invoke\<close> throws.

  One assignment is no insertion: \<^verbatim>\<open>acc['__proto__'] = tool\<close> replaces the prototype of the
  object instead of adding a key, after which every read of a missing key goes through
  the properties of that tool object, which the handler knows nothing about. The map below
  is what the code builds when no listed tool bears that name, which is what
  \<open>plainToolNames\<close> says; every statement about what a lookup finds assumes it.
\<close>

definition plainToolNames :: "tool list \<Rightarrow> bool" where
  "plainToolNames ts = (''__proto__'' \<notin> tool_name ` set ts)"

definition buildToolsMap :: "tool list \<Rightarrow> (string \<rightharpoonup> tool)" where
  "buildToolsMap normalizedTools =
     (if normalizedTools \<noteq> []
      then foldl (\<lambda>acc t. acc(tool_name t \<mapsto> t)) Map.empty normalizedTools
      else Map.empty)"

definition Object_prototype_keys :: "string list" where
  "Object_prototype_keys =
     [''constructor'', ''__proto__'', ''hasOwnProperty'', ''isPrototypeOf'',
      ''propertyIsEnumerable'', ''toLocaleString'', ''toString'', ''valueOf'',
      ''__defineGetter__'', ''__defineSetter__'', ''__lookupGetter__'', ''__lookupSetter__'']"

datatype selected = Absent | Inherited | Own tool

definition selectTool :: "(string \<rightharpoonup> tool) \<Rightarrow> string \<Rightarrow> selected" where
  "selectTool toolsMap name =
     (case toolsMap name of
        Some t \<Rightarrow> Own t
      | None \<Rightarrow> if name \<in> set Object_prototype_keys then Inherited else Absent)"

text \<open>
  The chunk loop of lines 300-320: each chunk is folded into \<^verbatim>\<open>gathered\<close> and written out
  with its own content. The text joined from an array content (lines 306-311) is computed
  and then not used: the message is built from \<^verbatim>\<open>chunk?.content\<close>.
\<close>

definition joinedText :: "content_value option \<Rightarrow> content_value option" where
  "joinedText c =
     (case c of
        Some (Parts items) \<Rightarrow>
          Some (Text (concat (map (\<lambda>i. case part_text i of None \<Rightarrow> [] | Some s \<Rightarrow> s)
            (filter (\<lambda>i. part_type i = ''text_delta'' \<and> part_text i \<noteq> None) items))))
      | other \<Rightarrow> other)"

fun forwardChunks ::
  "env \<Rightarrow> ai_message option \<Rightarrow> ai_message list \<Rightarrow> ai_message option \<times> outbound list" where
  "forwardChunks e gathered [] = (gathered, [])"
| "forwardChunks e gathered (chunk # rest) =
     (let gathered' = (case gathered of Some g \<Rightarrow> concatChunks e g chunk | None \<Rightarrow> chunk);
          content' = joinedText (reply_content chunk);
          message' = TextDelta (reply_content chunk)
      in case forwardChunks e (Some gathered') rest of
           (g, out) \<Rightarrow> (g, message' # out))"

text \<open>
  The tool loop of lines 323-344. A tool call whose name selects nothing is skipped; a tool
  that throws, or returns nothing to read \<^verbatim>\<open>tool_call_id\<close> from, ends the stream.
\<close>

fun runToolCalls :: "env \<Rightarrow> (string \<rightharpoonup> tool) \<Rightarrow> tool_call list \<Rightarrow> unit io" where
  "runToolCalls e toolsMap [] = (Inr (), [])"
| "runToolCalls e toolsMap (toolCall # rest) =
     (case selectTool toolsMap (call_name toolCall) of
        Absent \<Rightarrow> runToolCalls e toolsMap rest
      | Inherited \<Rightarrow> (Inl TypeError, [])
      | Own selectedTool \<Rightarrow>
          (case invokeTool e selectedTool toolCall of
             Inl err \<Rightarrow> (Inl err, [InvokeTool selectedTool toolCall])
           | Inr None \<Rightarrow> (Inl TypeError, [InvokeTool selectedTool toolCall])
           | Inr (Some result) \<Rightarrow>
               (case runToolCalls e toolsMap rest of
                  (r, t) \<Rightarrow>
                    (r, InvokeTool selectedTool toolCall
                        # Emit (ToolResult (tool_call_id result) (result_content result))
                        # t))))"

definition gatheredToolCalls :: "ai_message option \<Rightarrow> tool_call list" where
  "gatheredToolCalls gathered =
     (case gathered of
        None \<Rightarrow> []
      | Some g \<Rightarrow> (case tool_calls g of None \<Rightarrow> [] | Some cs \<Rightarrow> cs))"

definition agenticStream :: "env \<Rightarrow> (string \<rightharpoonup> tool) \<Rightarrow> chunk_stream \<Rightarrow> response io" where
  "agenticStream e toolsMap response =
     (case forwardChunks e None (chunks response) of
        (gathered, deltas) \<Rightarrow>
          (case failure response of
             Some err \<Rightarrow> (Inr (EventStream (Some err)), map Emit deltas)
           | None \<Rightarrow>
               (case runToolCalls e toolsMap (gatheredToolCalls gathered) of
                  (Inl err, t) \<Rightarrow> (Inr (EventStream (Some err)), map Emit deltas @ t)
                | (Inr u, t) \<Rightarrow> (Inr (EventStream None), map Emit deltas @ t))))"

definition toolChat :: "env \<Rightarrow> requestBody \<Rightarrow> response io" where
  "toolChat e req =
     bnd (call Connect (connect e)) (\<lambda>u.
     bnd (call ClientListTools (clientListTools e)) (\<lambda>mcpTools.
     bnd (call (CreateChatModel (model req) (family req))
            (createChatModel e (model req) (family req))) (\<lambda>chat.
     let llm1 = (if mcpTools \<noteq> [] then bind_tools (ChatModel chat) mcpTools else ChatModel chat) in
     bnd (call McpListTools (mcpListTools e)) (\<lambda>listed.
     let normalizedTools = (case listed of None \<Rightarrow> [] | Some ts \<Rightarrow> ts);
         toolsMap = buildToolsMap normalizedTools;
         llm2 = (if family req = MODEL_FAMILIES_anthropic e \<and> normalizedTools \<noteq> []
                 then bind_tools llm1 normalizedTools
                 else if instanceof_ChatOllama llm1 \<and> normalizedTools \<noteq> []
                 then bind_tools llm1 normalizedTools
                 else llm1) in
     if \<not> stream req then
       bnd (call (LlmInvoke llm2 (transformMessages (messages req)))
              (llmInvoke e llm2 (transformMessages (messages req)))) (\<lambda>response.
       ret (MessageBody (case response of None \<Rightarrow> None | Some r \<Rightarrow> reply_content r) None))
     else
       bnd (call (LlmStream llm2 (transformMessages (messages req)))
              (llmStream e llm2 (transformMessages (messages req)))) (\<lambda>response.
       agenticStream e toolsMap response)))))"

subsection \<open>The handler (lines 93-96)\<close>

text \<open>\<^verbatim>\<open>if (knowledgebaseId)\<close>: an absent, null or zero id is falsy.\<close>

definition handler :: "env \<Rightarrow> requestBody \<Rightarrow> response io" where
  "handler e req =
     (case knowledgebaseId req of
        None \<Rightarrow> toolChat e req
      | Some kbId \<Rightarrow> if kbId \<noteq> 0 then knowledgeBaseChat e req kbId else toolChat e req)"

subsection \<open>Notions used in the statements\<close>

text \<open>
  What \<^verbatim>\<open>gathered\<close> holds after the chunk loop: nothing for an empty stream, else the chunks
  merged from the left by \<^verbatim>\<open>concat\<close>.
\<close>

definition gatheredOf :: "env \<Rightarrow> ai_message list \<Rightarrow> ai_message option" where
  "gatheredOf e cs = (case cs of [] \<Rightarrow> None | c # cs' \<Rightarrow> Some (foldl (concatChunks e) c cs'))"

text \<open>What \<^verbatim>\<open>normalizedTools\<close> is, given what \<^verbatim>\<open>mcpService.listTools()\<close> returns.\<close>

definition normalizedToolsOf :: "env \<Rightarrow> tool list" where
  "normalizedToolsOf e = (case mcpListTools e of Inr (Some ts) \<Rightarrow> ts | _ \<Rightarrow> [])"

text \<open>
  The tool-result event of one tool call: that of the result its registered tool returns;
  none when the name selects no tool or the tool does not return a result.
\<close>

definition toolResultOf :: "env \<Rightarrow> (string \<rightharpoonup> tool) \<Rightarrow> tool_call \<Rightarrow> outbound option" where
  "toolResultOf e toolsMap toolCall =
     (case selectTool toolsMap (call_name toolCall) of
        Own t \<Rightarrow>
          (case invokeTool e t toolCall of
             Inr (Some r) \<Rightarrow> Some (ToolResult (tool_call_id r) (result_content r))
           | _ \<Rightarrow> None)
      | _ \<Rightarrow> None)"


subsection \<open>An example deployment\<close>

text \<open>
  One knowledge base (id 1), a configured reranker that keeps the first \<open>topN\<close> documents, a
  retriever that returns five documents, a coreference resolver that rewrites the query, one
  tool from the stdio client and one from the MCP service, and a model whose stream asks
  for three tools.
\<close>

definition doc :: "string \<Rightarrow> document" where
  "doc s = \<lparr>pageContent = s, metadata = []\<rparr>"

definition chunk :: "content_value option \<Rightarrow> tool_call list option \<Rightarrow> ai_message" where
  "chunk c tcs = \<lparr>reply_content = c, tool_calls = tcs\<rparr>"

definition toolCall :: "string \<Rightarrow> string \<Rightarrow> tool_call" where
  "toolCall n i = \<lparr>call_name = n, call_args = ''{}'', call_id = Some i\<rparr>"

definition example_env :: env where
  "example_env =
     \<lparr>OPENAI_API_KEY = None, COHERE_API_KEY = Some ''key'', COHERE_BASE_URL = None,
      COHERE_MODEL = Some ''rerank'', MODEL_FAMILIES_anthropic = ''Anthropic'',
      findUnique = (\<lambda>k. if k = 1
         then Inr (Some \<lparr>kb_id = 1, kb_name = ''docs'', kb_embedding = Some ''nomic''\<rparr>)
         else Inr None),
      createEmbeddings = (\<lambda>m. Inr ''emb''),
      createRetriever = (\<lambda>em c. Inr c),
      createChatModel = (\<lambda>m f. Inr \<lparr>chat_handle = m, is_ChatOllama = (f = ''Ollama'')\<rparr>),
      resolveCoreference = (\<lambda>q h k. Inr \<lparr>coref_output = Some (''about '' @ q)\<rparr>),
      getRelevantDocuments = (\<lambda>r q. Inr [doc ''a'', doc ''b'', doc ''c'', doc ''d'', doc ''e'']),
      compressDocuments = (\<lambda>opts ds q. Inr (take (topN opts) ds)),
      chainInvoke = (\<lambda>c p. Inr (Some (chunk (Some (Text ''ok'')) None))),
      chainStream = (\<lambda>c p. Inr \<lparr>chunks = [chunk (Some (Text ''o'')) None,
         chunk (Some (Text ''k'')) None], failure = None\<rparr>),
      connect = Inr (),
      clientListTools = Inr [\<lparr>tool_name = ''read_query'', tool_description = ''sql''\<rparr>],
      mcpListTools = Inr (Some [\<lparr>tool_name = ''search'', tool_description = ''web''\<rparr>]),
      llmInvoke = (\<lambda>l ms. Inr (Some (chunk (Some (Text ''ok''))
         (Some [toolCall ''search'' ''c1''])))),
      llmStream = (\<lambda>l ms. Inr \<lparr>chunks = [chunk (Some (Text ''o'')) None,
         chunk None (Some [toolCall ''calculator'' ''c1'', toolCall ''search'' ''c2'',
           toolCall ''read_query'' ''c3''])], failure = None\<rparr>),
      concatChunks = (\<lambda>a b. chunk (reply_content a)
         (case tool_calls a of None \<Rightarrow> tool_calls b
          | Some x \<Rightarrow> Some (x @ (case tool_calls b of None \<Rightarrow> [] | Some y \<Rightarrow> y)))),
      invokeTool = (\<lambda>t c. Inr (Some \<lparr>tool_call_id = call_id c,
         result_content = Some (Text (tool_name t))\<rparr>))\<rparr>"

definition example_request :: "int option \<Rightarrow> bool \<Rightarrow> requestBody" where
  "example_request k s =
     \<lparr>knowledgebaseId = k, model = ''llama3'', family = ''Ollama'',
      messages = [\<lparr>role = ''user'', content = ''hi'', toolCallId = None, toolResult = False\<rparr>],
      stream = s\<rparr>"

section \<open>Properties\<close>

subsection \<open>The message normalizer\<close>

lemma normalizeMessages_append:
  "normalizeMessages (xs @ ys) = normalizeMessages xs @ normalizeMessages ys"
  by (induction xs) simp_all

text \<open>
  C7 (as stated, refuted): a message marked as a tool result with no \<open>toolCallId\<close> does not
  make the normalizer fail; it yields a tool-result message whose call id is absent, and an
  empty id yields one whose call id is empty.
\<close>

theorem normalizeMessages_no_id_counterexample:
  "normalizeMessages
     [\<lparr>role = ''user'', content = ''42'', toolCallId = None, toolResult = True\<rparr>,
      \<lparr>role = ''user'', content = ''43'', toolCallId = Some '''', toolResult = True\<rparr>]
   = [ToolMessage ''42'' None, ToolMessage ''43'' (Some '''')]"
  by simp

text \<open>
  C7 (amended): wherever a message marked as a tool result stands in the request, and whatever
  its \<open>toolCallId\<close> (absent and empty included), the normalizer turns it into a tool-result
  message carrying the content and that very id, between the normalized messages before
  and after it; it never fails.
\<close>

theorem normalizeMessages_tool_result:
  "toolResult m \<Longrightarrow>
     normalizeMessages (xs @ m # ys) =
       normalizeMessages xs @ ToolMessage (content m) (toolCallId m) # normalizeMessages ys"
  by (simp add: normalizeMessages_append)

theorem normalizeMessages_tool_result_witness:
  "normalizeMessages
     ([\<lparr>role = ''user'', content = ''hi'', toolCallId = None, toolResult = False\<rparr>]
      @ \<lparr>role = ''assistant'', content = ''7'', toolCallId = None, toolResult = True\<rparr>
      # [\<lparr>role = ''system'', content = ''x'', toolCallId = None, toolResult = False\<rparr>])
   = [HumanMessage ''hi'', ToolMessage ''7'' None]"
  using normalizeMessages_tool_result
    [of "\<lparr>role = ''assistant'', content = ''7'', toolCallId = None, toolResult = True\<rparr>"
        "[\<lparr>role = ''user'', content = ''hi'', toolCallId = None, toolResult = False\<rparr>]"
        "[\<lparr>role = ''system'', content = ''x'', toolCallId = None, toolResult = False\<rparr>]"]
  by simp

subsection \<open>Traces of the building blocks\<close>

lemma fst_bnd: "fst (bnd m f) = (case fst m of Inl err \<Rightarrow> Inl err | Inr x \<Rightarrow> fst (f x))"
  by (simp add: bnd_def split: prod.splits sum.splits)

lemma snd_bnd: "snd (bnd m f) = (case fst m of Inl err \<Rightarrow> snd m | Inr x \<Rightarrow> snd m @ snd (f x))"
  by (simp add: bnd_def split: prod.splits sum.splits)

lemma fst_call [simp]: "fst (call c r) = r"
  by (simp add: call_def)

lemma snd_call [simp]: "snd (call c r) = [c]"
  by (simp add: call_def)

lemma fst_ret [simp]: "fst (ret x) = Inr x"
  by (simp add: ret_def)

lemma snd_ret [simp]: "snd (ret x) = []"
  by (simp add: ret_def)

lemma fst_throw [simp]: "fst (throw x) = Inl x"
  by (simp add: throw_def)

lemma snd_throw [simp]: "snd (throw x) = []"
  by (simp add: throw_def)

lemma emitted_Nil [simp]: "emitted [] = []"
  by (simp add: emitted_def map_filter_simps)

lemma emitted_Emit [simp]: "emitted (Emit x # t) = x # emitted t"
  by (simp add: emitted_def map_filter_simps)

lemma emitted_append [simp]: "emitted (s @ t) = emitted s @ emitted t"
  by (simp add: emitted_def map_filter_def)

lemma emitted_map_Emit [simp]: "emitted (map Emit es) = es"
  by (induction es) simp_all

lemma emitted_map_Emit_comp [simp]: "emitted (map (Emit \<circ> f) es) = map f es"
  by (induction es) simp_all

lemma emitted_other [simp]:
  "emitted (FindUnique k # t) = emitted t"
  "emitted (SetResponseStatus n s # t) = emitted t"
  "emitted (CreateEmbeddings em # t) = emitted t"
  "emitted (CreateRetriever a b # t) = emitted t"
  "emitted (CreateChatModel a b # t) = emitted t"
  "emitted (ResolveCoreference q h k' # t) = emitted t"
  "emitted (GetRelevantDocuments a b # t) = emitted t"
  "emitted (CompressDocuments opts ds q # t) = emitted t"
  "emitted (ChainInvoke cm v # t) = emitted t"
  "emitted (ChainStream cm v # t) = emitted t"
  "emitted (SetEventStreamResponse # t) = emitted t"
  "emitted (Connect # t) = emitted t"
  "emitted (ClientListTools # t) = emitted t"
  "emitted (McpListTools # t) = emitted t"
  "emitted (LlmInvoke l ms # t) = emitted t"
  "emitted (LlmStream l ms # t) = emitted t"
  "emitted (InvokeTool tool0 tc # t) = emitted t"
  by (simp_all add: emitted_def map_filter_simps)

lemma retrieve_calls:
  "c \<in> set (snd (retrieve e r q)) \<Longrightarrow>
     c = GetRelevantDocuments r q \<or> (\<exists>ds. c = CompressDocuments (rerankOptions e) ds q)"
  by (auto simp: retrieve_def snd_bnd fst_bnd split: sum.splits if_splits)

lemma retrieve_first: "GetRelevantDocuments r q \<in> set (snd (retrieve e r q))"
  by (auto simp: retrieve_def snd_bnd fst_bnd split: sum.splits if_splits)

lemma respond_calls:
  "c \<in> set (snd (respond e req chat query rel rer)) \<Longrightarrow>
     (\<exists>v. (c = ChainInvoke chat v \<or> c = ChainStream chat v) \<and> question v = query
          \<and> chatHistory v = serializeMessages (messages req)
          \<and> context_slot v = formatDocumentsAsString rer)
     \<or> c = SetEventStreamResponse \<or> (\<exists>ev. c = Emit ev)"
  by (auto simp: respond_def snd_bnd fst_bnd Let_def ragStream_def
      split: sum.splits if_splits option.splits)

lemma runToolCalls_calls:
  "runToolCalls e m tcs = (res, t) \<Longrightarrow> c \<in> set t \<Longrightarrow>
     (\<exists>tl tc. c = InvokeTool tl tc) \<or> (\<exists>i r. c = Emit (ToolResult i r))"
  by (induction tcs arbitrary: res t)
     (auto split: selected.splits sum.splits option.splits prod.splits)

lemma agenticStream_calls:
  "c \<in> set (snd (agenticStream e m response)) \<Longrightarrow>
     (\<exists>tl tc. c = InvokeTool tl tc) \<or> (\<exists>ev. c = Emit ev)"
  by (auto simp: agenticStream_def split: prod.splits option.splits sum.splits
      dest: runToolCalls_calls)

lemma toolChat_calls:
  "c \<in> set (snd (toolChat e req)) \<Longrightarrow>
     c = Connect \<or> c = ClientListTools \<or> c = CreateChatModel (model req) (family req)
     \<or> c = McpListTools
     \<or> (\<exists>l. c = LlmInvoke l (transformMessages (messages req)))
     \<or> (\<exists>l. c = LlmStream l (transformMessages (messages req)))
     \<or> (\<exists>tl tc. c = InvokeTool tl tc) \<or> (\<exists>ev. c = Emit ev)"
  by (auto simp: toolChat_def snd_bnd fst_bnd Let_def split: sum.splits if_splits
      dest: agenticStream_calls)

lemma handler_falsy: "knowledgebaseId req = None \<or> knowledgebaseId req = Some 0 \<Longrightarrow>
    handler e req = toolChat e req"
  by (auto simp: handler_def)

lemma handler_truthy: "knowledgebaseId req = Some k \<Longrightarrow> k \<noteq> 0 \<Longrightarrow>
    handler e req = knowledgeBaseChat e req k"
  by (simp add: handler_def)

text \<open>The recursions on integers, unfolded on numerals only.\<close>

lemma bitlen_eval:
  "bitlen 0 = 0"
  "bitlen 1 = 1"
  "bitlen (numeral n) = 1 + bitlen (numeral n div 2)"
  by (simp_all add: bitlen.simps)

lemma trim_eval:
  "trim 0 e = (0, 0)"
  "trim 1 e = (1, e)"
  "trim (numeral n) e =
     (if even (numeral n :: int) then trim (numeral n div 2) (e + 1) else (numeral n, e))"
  by (simp_all add: trim.simps)

lemma digits_eval:
  "digits 0 = ''0''"
  "digits 1 = ''1''"
  "digits (numeral n) =
     (if numeral n < (10::int) then [''0123456789'' ! nat (numeral n)]
      else digits (numeral n div 10) @ [''0123456789'' ! nat (numeral n mod 10)])"
  by (simp_all add: digits.simps)

lemmas number_eval =
  of_int_number_def round_dyadic_def pack_def bitlen_eval trim_eval digits_eval Let_def
  shortest.simps candidate_def decimal_exponent_def numer_def denom_def round_decimal_def
  format_decimal_def

lemmas example_defs =
  handler_def example_request_def example_env_def knowledgeBaseChat_def retrieve_def respond_def
  bnd_def call_def ret_def throw_def number_eval lastContent_def orQuery_def
  rerankConfigured_def truthy_string_def rerankOptions_def doc_def chunk_def toolCall_def
  ragStream_def ragDeltas_def toolChat_def agenticStream_def buildToolsMap_def selectTool_def
  gatheredToolCalls_def transformMessages_def Object_prototype_keys_def Let_def
  serializeMessages_def formatDocumentsAsString_def newline_def normalizedToolsOf_def
  gatheredOf_def toolResultOf_def map_filter_simps

subsection \<open>Unknown knowledge base\<close>

text \<open>
  C3 (as stated, refuted): a request with the id 0, which matches no stored knowledge base,
  gets no 404: the handler takes the tool branch, invokes the model and answers.
\<close>

theorem unknown_id_zero_counterexample:
  "findUnique example_env 0 = Inr None
   \<and> handler example_env (example_request (Some 0) False) =
       (Inr (MessageBody (Some (Text ''ok'')) None),
        [Connect, ClientListTools, CreateChatModel ''llama3'' ''Ollama'', McpListTools,
         LlmInvoke
           (RunnableBinding \<lparr>chat_handle = ''llama3'', is_ChatOllama = True\<rparr>
              [\<lparr>tool_name = ''read_query'', tool_description = ''sql''\<rparr>])
           [(''user'', ''hi'')]])"
  by (simp add: example_defs)

text \<open>
  C3 (amended): for every request whose knowledgebaseId is truthy (present and not 0) and for
  which the lookup finds no knowledge base, the handler makes the lookup, sets the status
  404 once, with the message naming the id as JavaScript prints that number, and returns no
  body; it calls nothing else (no embedding, retriever, coreference, reranker or model).
\<close>

theorem unknown_knowledge_base_404:
  "knowledgebaseId req = Some k \<Longrightarrow> k \<noteq> 0 \<Longrightarrow> findUnique e k = Inr None \<Longrightarrow>
     handler e req =
       (Inr NoBody,
        [FindUnique k,
         SetResponseStatus 404
           (''Knowledge base with id '' @ ToString (of_int_number k) @ '' not found'')])"
  by (simp add: handler_def knowledgeBaseChat_def bnd_def call_def)

theorem unknown_knowledge_base_404_witness:
  "handler example_env (example_request (Some 999999) True) =
     (Inr NoBody,
      [FindUnique 999999,
       SetResponseStatus 404 ''Knowledge base with id 999999 not found''])"
  using unknown_knowledge_base_404 [of "example_request (Some 999999) True" 999999 example_env]
  by (simp add: example_request_def example_env_def number_eval)

subsection \<open>Branch selection\<close>

text \<open>
  C9: a request whose knowledgebaseId is absent, null or 0 is handled by the tool branch,
  and the knowledge-base lookup is never called.
\<close>

theorem falsy_id_takes_tool_branch:
  "knowledgebaseId req = None \<or> knowledgebaseId req = Some 0 \<Longrightarrow>
     handler e req = toolChat e req \<and> (\<forall>k. FindUnique k \<notin> set (snd (handler e req)))"
  by (auto simp: handler_def dest: toolChat_calls)

theorem falsy_id_takes_tool_branch_witness:
  "knowledgebaseId (example_request (Some 0) True) = Some 0
   \<and> handler example_env (example_request (Some 0) True)
       = toolChat example_env (example_request (Some 0) True)
   \<and> (\<forall>k. FindUnique k \<notin> set (snd (handler example_env (example_request (Some 0) True))))"
proof -
  have h: "knowledgebaseId (example_request (Some 0) True) = Some 0"
    by (simp add: example_request_def)
  from falsy_id_takes_tool_branch [OF disjI2 [OF h], of example_env] h
  show ?thesis by blast
qed

subsection \<open>The prompt's question slot\<close>



subsection \<open>The coreference resolver\<close>

text \<open>
  C2 (as stated, refuted): when the coreference resolver throws, the request is aborted
  with that error right after the call; no retrieval is made and nothing is answered.
\<close>

theorem coreference_throws_counterexample:
  "handler
     (example_env\<lparr>resolveCoreference := \<lambda>q h k. Inl (Thrown ''coreference failed'')\<rparr>)
     (example_request (Some 1) False) =
   (Inl (Thrown ''coreference failed''),
    [FindUnique 1, CreateEmbeddings (Some ''nomic''), CreateRetriever ''emb'' ''collection_1'',
     CreateChatModel ''llama3'' ''Ollama'',
     ResolveCoreference ''hi'' [HumanMessage ''hi''] None])"
  by (simp add: example_defs)

text \<open>
  C2 (amended): whenever the handler calls the coreference resolver: if the resolver returns
  an absent or empty output, the retriever is called, and only ever called, with the
  content of the last request message verbatim; if the resolver throws, the handler fails
  with that error and the retriever is not called.
\<close>

theorem coreference_fallback:
  assumes "ResolveCoreference q h key \<in> set (snd (handler e req))"
  shows "(\<forall>res. resolveCoreference e q h key = Inr res
              \<and> (coref_output res = None \<or> coref_output res = Some []) \<longrightarrow>
            q = content (last (messages req))
            \<and> (\<exists>r. GetRelevantDocuments r q \<in> set (snd (handler e req)))
            \<and> (\<forall>r q'. GetRelevantDocuments r q' \<in> set (snd (handler e req)) \<longrightarrow> q' = q))
       \<and> (\<forall>err. resolveCoreference e q h key = Inl err \<longrightarrow>
            fst (handler e req) = Inl err
            \<and> (\<forall>r q'. GetRelevantDocuments r q' \<notin> set (snd (handler e req))))"
proof (cases "\<exists>k. knowledgebaseId req = Some k \<and> k \<noteq> 0")
  case False
  then have "handler e req = toolChat e req"
    by (cases "knowledgebaseId req") (auto simp: handler_def)
  with assms show ?thesis
    by (auto dest: toolChat_calls)
next
  case True
  then obtain k where "handler e req = knowledgeBaseChat e req k"
    by (auto simp: handler_def)
  with assms retrieve_first show ?thesis
    by (auto simp: knowledgeBaseChat_def snd_bnd fst_bnd lastContent_def orQuery_def
        split: sum.splits if_splits option.splits dest!: retrieve_calls respond_calls)
qed

theorem coreference_fallback_witness:
  "ResolveCoreference ''hi'' [HumanMessage ''hi''] None
     \<in> set (snd (handler (example_env\<lparr>resolveCoreference := \<lambda>q h k. Inr \<lparr>coref_output = Some []\<rparr>\<rparr>)
                 (example_request (Some 1) False)))
   \<and> GetRelevantDocuments ''collection_1'' ''hi''
     \<in> set (snd (handler (example_env\<lparr>resolveCoreference := \<lambda>q h k. Inr \<lparr>coref_output = Some []\<rparr>\<rparr>)
                 (example_request (Some 1) False)))
   \<and> ''hi'' = content (last (messages (example_request (Some 1) False)))"
proof -
  let ?e = "example_env\<lparr>resolveCoreference := \<lambda>q h k. Inr \<lparr>coref_output = Some []\<rparr>\<rparr>"
  have c: "ResolveCoreference ''hi'' [HumanMessage ''hi''] None
     \<in> set (snd (handler ?e (example_request (Some 1) False)))"
    by (simp add: example_defs)
  have r: "GetRelevantDocuments ''collection_1'' ''hi''
     \<in> set (snd (handler ?e (example_request (Some 1) False)))"
    by (simp add: example_defs)
  have o: "resolveCoreference ?e ''hi'' [HumanMessage ''hi''] None = Inr \<lparr>coref_output = Some []\<rparr>"
    by simp
  from coreference_fallback [OF c] o have "''hi'' = content (last (messages (example_request (Some 1) False)))"
    by simp
  with c r show ?thesis by simp
qed

subsection \<open>The tool branch without streaming\<close>

text \<open>
  C6 (as stated, refuted): the model's reply asks for the tool \<open>search\<close>, which is in the
  lookup map, and the handler neither looks it up nor invokes it: after the one model call
  it returns the reply's content.
\<close>

theorem sync_tool_call_not_resolved_counterexample:
  "llmInvoke example_env
       (RunnableBinding \<lparr>chat_handle = ''llama3'', is_ChatOllama = True\<rparr>
          [\<lparr>tool_name = ''read_query'', tool_description = ''sql''\<rparr>])
       [(''user'', ''hi'')]
     = Inr (Some \<lparr>reply_content = Some (Text ''ok''),
                  tool_calls = Some [\<lparr>call_name = ''search'', call_args = ''{}'',
                                      call_id = Some ''c1''\<rparr>]\<rparr>)
   \<and> buildToolsMap (normalizedToolsOf example_env) ''search''
     = Some \<lparr>tool_name = ''search'', tool_description = ''web''\<rparr>
   \<and> handler example_env (example_request None False) =
       (Inr (MessageBody (Some (Text ''ok'')) None),
        [Connect, ClientListTools, CreateChatModel ''llama3'' ''Ollama'', McpListTools,
         LlmInvoke
           (RunnableBinding \<lparr>chat_handle = ''llama3'', is_ChatOllama = True\<rparr>
              [\<lparr>tool_name = ''read_query'', tool_description = ''sql''\<rparr>])
           [(''user'', ''hi'')]])"
  by (simp add: example_defs)

text \<open>
  C6 (amended): for every non-streaming request on the tool branch, the calls made are an
  initial part of: connect, list the client's tools, create the model, list the service's
  tools, invoke the model once. No tool is looked up or invoked and the model is not
  invoked a second time, whatever tool calls the reply holds; a response, when there is
  one, is the content of that one reply, with no documents.
\<close>

theorem sync_tool_branch_single_turn:
  assumes "knowledgebaseId req = None \<or> knowledgebaseId req = Some 0" and "\<not> stream req"
  shows "(\<exists>l. prefix (snd (handler e req))
            [Connect, ClientListTools, CreateChatModel (model req) (family req), McpListTools,
             LlmInvoke l (transformMessages (messages req))])
       \<and> (\<forall>body. fst (handler e req) = Inr body \<longrightarrow>
            (\<exists>l reply. llmInvoke e l (transformMessages (messages req)) = Inr reply
               \<and> body = MessageBody (case reply of None \<Rightarrow> None | Some r \<Rightarrow> reply_content r)
                          None))"
proof -
  have h: "handler e req = toolChat e req"
    using assms(1) by (rule handler_falsy)
  show ?thesis
    unfolding h using assms(2)
    by (auto simp: toolChat_def snd_bnd fst_bnd Let_def split: sum.splits)
qed

theorem sync_tool_branch_single_turn_witness:
  "prefix (snd (handler example_env (example_request None False)))
     [Connect, ClientListTools, CreateChatModel ''llama3'' ''Ollama'', McpListTools,
      LlmInvoke
        (RunnableBinding \<lparr>chat_handle = ''llama3'', is_ChatOllama = True\<rparr>
           [\<lparr>tool_name = ''read_query'', tool_description = ''sql''\<rparr>])
        [(''user'', ''hi'')]]
   \<and> fst (handler example_env (example_request None False))
     = Inr (MessageBody (Some (Text ''ok'')) None)"
proof -
  have a: "knowledgebaseId (example_request None False) = None
           \<or> knowledgebaseId (example_request None False) = Some 0"
    and b: "\<not> stream (example_request None False)"
    by (simp_all add: example_request_def)
  have t: "snd (handler example_env (example_request None False)) =
     [Connect, ClientListTools, CreateChatModel ''llama3'' ''Ollama'', McpListTools,
      LlmInvoke
        (RunnableBinding \<lparr>chat_handle = ''llama3'', is_ChatOllama = True\<rparr>
           [\<lparr>tool_name = ''read_query'', tool_description = ''sql''\<rparr>])
        [(''user'', ''hi'')]]"
    by (simp add: example_defs)
  have f: "fst (handler example_env (example_request None False))
     = Inr (MessageBody (Some (Text ''ok'')) None)"
    by (simp add: example_defs)
  from sync_tool_branch_single_turn [OF a b, of example_env] t f show ?thesis
    by simp
qed

subsection \<open>The tool branch, streaming\<close>



lemma forwardChunks_deltas:
  "snd (forwardChunks e g cs) = map (\<lambda>c. TextDelta (reply_content c)) cs"
  by (induction cs arbitrary: g) (simp_all add: Let_def case_prod_beta)












subsection \<open>The documents in the response\<close>

text \<open>
  What each branch hands out: the non-streaming body carries the list the retriever
  returned; the streamed documents are the reranker's output when the reranker is
  configured (with \<open>topN = 4\<close>) and the retriever's list otherwise.
\<close>

lemma retrieve_result:
  "fst (retrieve e r q) = Inr docs \<Longrightarrow>
     getRelevantDocuments e r q = Inr (fst docs)
     \<and> (if rerankConfigured e
        then compressDocuments e (rerankOptions e) (fst docs) q = Inr (snd docs)
        else snd docs = fst docs)"
  by (auto simp: retrieve_def fst_bnd split: sum.splits if_splits)

lemma respond_documents:
  "Emit (RelevantDocuments ds) \<in> set (snd (respond e req chat query rel rer)) \<Longrightarrow> ds = rer"
  by (auto simp: respond_def snd_bnd fst_bnd Let_def ragStream_def ragDeltas_def
      split: sum.splits if_splits option.splits)

lemma respond_body:
  "fst (respond e req chat query rel rer) = Inr (MessageBody c (Some ds)) \<Longrightarrow> ds = rel"
  by (auto simp: respond_def fst_bnd Let_def ragStream_def split: sum.splits if_splits option.splits)

lemma agenticStream_emits:
  "Emit ev \<in> set (snd (agenticStream e m response)) \<Longrightarrow>
     (\<exists>c. ev = TextDelta c) \<or> (\<exists>i r. ev = ToolResult i r)"
proof -
  assume a: "Emit ev \<in> set (snd (agenticStream e m response))"
  let ?run = "runToolCalls e m (gatheredToolCalls (fst (forwardChunks e None (chunks response))))"
  from a have "Emit ev \<in> Emit ` set (snd (forwardChunks e None (chunks response)))
      \<or> Emit ev \<in> set (snd ?run)"
    by (auto simp: agenticStream_def case_prod_beta split: option.splits sum.splits)
  then show ?thesis
  proof
    assume "Emit ev \<in> Emit ` set (snd (forwardChunks e None (chunks response)))"
    then show ?thesis
      by (auto simp: forwardChunks_deltas)
  next
    assume "Emit ev \<in> set (snd ?run)"
    from runToolCalls_calls [OF surjective_pairing this] show ?thesis
      by auto
  qed
qed

lemma agenticStream_fst: "\<exists>x. fst (agenticStream e m response) = Inr (EventStream x)"
  by (simp add: agenticStream_def case_prod_beta split: option.splits sum.splits)

lemma toolChat_body:
  "fst (toolChat e req) \<noteq> Inr (MessageBody c (Some ds))"
proof
  assume a: "fst (toolChat e req) = Inr (MessageBody c (Some ds))"
  show False
  proof (cases "stream req")
    case False
    with a show False
      by (auto simp: toolChat_def fst_bnd Let_def split: sum.splits)
  next
    case True
    with a obtain m response where
      "fst (agenticStream e m response) = Inr (MessageBody c (Some ds))"
      by (auto simp: toolChat_def fst_bnd Let_def split: sum.splits)
    with agenticStream_fst [of e m response] show False
      by auto
  qed
qed

lemma toolChat_emits:
  "Emit ev \<in> set (snd (toolChat e req)) \<Longrightarrow>
     (\<exists>c. ev = TextDelta c) \<or> (\<exists>i r. ev = ToolResult i r)"
proof -
  assume a: "Emit ev \<in> set (snd (toolChat e req))"
  then have "\<exists>m response. Emit ev \<in> set (snd (agenticStream e m response))"
    by (auto simp: toolChat_def snd_bnd fst_bnd Let_def split: sum.splits if_splits)
  then show ?thesis
    by (auto dest: agenticStream_emits)
qed

lemma knowledgeBaseChat_answer:
  "fst (knowledgeBaseChat e req k) = Inr (MessageBody c ds) \<Longrightarrow>
     \<exists>chat r q docs. fst (retrieve e r q) = Inr docs
       \<and> GetRelevantDocuments r q \<in> set (snd (knowledgeBaseChat e req k))
       \<and> fst (respond e req chat (content (last (messages req))) (fst docs) (snd docs))
           = Inr (MessageBody c ds)"
  by (auto simp: knowledgeBaseChat_def snd_bnd fst_bnd lastContent_def
      split: sum.splits if_splits option.splits)
     (blast intro: retrieve_first)

lemma knowledgeBaseChat_emit:
  "Emit ev \<in> set (snd (knowledgeBaseChat e req k)) \<Longrightarrow>
     \<exists>chat r q docs. fst (retrieve e r q) = Inr docs
       \<and> Emit ev \<in> set (snd (respond e req chat (content (last (messages req)))
                                (fst docs) (snd docs)))"
  by (auto simp: knowledgeBaseChat_def snd_bnd fst_bnd lastContent_def
      split: sum.splits if_splits option.splits dest: retrieve_calls)
     blast

lemma sync_docs_are_the_retrieved:
  assumes "fst (handler e req) = Inr (MessageBody c (Some ds))"
  shows "\<exists>r q. GetRelevantDocuments r q \<in> set (snd (handler e req))
           \<and> getRelevantDocuments e r q = Inr ds"
proof (cases "\<exists>k. knowledgebaseId req = Some k \<and> k \<noteq> 0")
  case False
  then have "handler e req = toolChat e req"
    by (cases "knowledgebaseId req") (auto simp: handler_def)
  with assms toolChat_body show ?thesis
    by simp
next
  case True
  then obtain k where h: "handler e req = knowledgeBaseChat e req k"
    by (auto simp: handler_def)
  from assms obtain chat r q docs where
    r: "fst (retrieve e r q) = Inr docs"
    and g: "GetRelevantDocuments r q \<in> set (snd (knowledgeBaseChat e req k))"
    and b: "fst (respond e req chat (content (last (messages req))) (fst docs) (snd docs))
              = Inr (MessageBody c (Some ds))"
    unfolding h by (blast dest: knowledgeBaseChat_answer)
  from b have "ds = fst docs"
    by (rule respond_body)
  with retrieve_result [OF r] g show ?thesis
    unfolding h by blast
qed

lemma streamed_docs_are_the_reranked:
  assumes "Emit (RelevantDocuments ds) \<in> set (snd (handler e req))"
  shows "\<exists>r q rel. getRelevantDocuments e r q = Inr rel
           \<and> (if rerankConfigured e
              then compressDocuments e (rerankOptions e) rel q = Inr ds
              else ds = rel)"
proof (cases "\<exists>k. knowledgebaseId req = Some k \<and> k \<noteq> 0")
  case False
  then have h: "handler e req = toolChat e req"
    by (cases "knowledgebaseId req") (auto simp: handler_def)
  have "Emit (RelevantDocuments ds) \<notin> set (snd (toolChat e req))"
    by (auto dest: toolChat_emits)
  with assms h show ?thesis
    by simp
next
  case True
  then obtain k where h: "handler e req = knowledgeBaseChat e req k"
    by (auto simp: handler_def)
  from assms obtain chat r q docs where
    r: "fst (retrieve e r q) = Inr docs"
    and b: "Emit (RelevantDocuments ds) \<in> set (snd (respond e req chat
              (content (last (messages req))) (fst docs) (snd docs)))"
    unfolding h by (blast dest: knowledgeBaseChat_emit)
  from b have "ds = snd docs"
    by (rule respond_documents)
  with retrieve_result [OF r] show ?thesis
    by (auto split: if_splits)
qed

text \<open>
  C1 (the code departs from it): with the reranker configured and five documents retrieved,
  the streamed \<^verbatim>\<open>relevant_documents\<close> are the reranker's four, but the non-streaming
  \<^verbatim>\<open>relevant_docs\<close> are the retriever's five: line 166 returns \<^verbatim>\<open>relevant_docs\<close> where line
  192 sends \<^verbatim>\<open>rerankedDocuments\<close>.
\<close>

theorem sync_relevant_docs_not_reranked:
  "rerankConfigured example_env
   \<and> fst (handler example_env (example_request (Some 1) False))
     = Inr (MessageBody (Some (Text ''ok''))
         (Some [doc ''a'', doc ''b'', doc ''c'', doc ''d'', doc ''e'']))
   \<and> emitted (snd (handler example_env (example_request (Some 1) True)))
     = [TextDelta (Some (Text ''o'')), TextDelta (Some (Text ''k'')),
        RelevantDocuments [doc ''a'', doc ''b'', doc ''c'', doc ''d'']]"
  by (simp add: example_defs emitted_def)

subsection \<open>The tool lookup map\<close>

text \<open>
  With plain names, the map's keys are the names of the MCP service's tools, each bound
  to such a tool.
\<close>

lemma foldl_toolsMap_dom:
  "dom (foldl (\<lambda>acc t. acc(tool_name t \<mapsto> t)) m ts) = dom m \<union> tool_name ` set ts"
  by (induction ts arbitrary: m) auto

lemma dom_buildToolsMap: "plainToolNames ts \<Longrightarrow> dom (buildToolsMap ts) = tool_name ` set ts"
  by (simp add: buildToolsMap_def foldl_toolsMap_dom)

lemma foldl_toolsMap_Some:
  "foldl (\<lambda>acc t. acc(tool_name t \<mapsto> t)) m ts n = Some t \<Longrightarrow>
     (t \<in> set ts \<and> tool_name t = n) \<or> m n = Some t"
proof (induction ts arbitrary: m)
  case Nil
  then show ?case by simp
next
  case (Cons x xs)
  from Cons.IH [of "m(tool_name x \<mapsto> x)"] Cons.prems show ?case
    by (auto split: if_splits)
qed

lemma buildToolsMap_Some:
  "plainToolNames ts \<Longrightarrow> buildToolsMap ts n = Some t \<Longrightarrow> t \<in> set ts \<and> tool_name t = n"
  by (auto simp: buildToolsMap_def dest: foldl_toolsMap_Some split: if_splits)

text \<open>
  C4 (the code departs from it): the lookup map holds the tools of the MCP service only.
  The calculator and the tool listed by the stdio client, which is the one bound to the
  model, are not in it, so when the model's stream asks for all three tools only the
  service's tool is invoked and answered; the other two calls are passed over.
\<close>

theorem calculator_not_in_toolsMap:
  "buildToolsMap (normalizedToolsOf example_env) (tool_name calculatorTool) = None
   \<and> buildToolsMap (normalizedToolsOf example_env) ''read_query'' = None
   \<and> snd (handler example_env (example_request None True))
     = [Connect, ClientListTools, CreateChatModel ''llama3'' ''Ollama'', McpListTools,
        LlmStream
          (RunnableBinding \<lparr>chat_handle = ''llama3'', is_ChatOllama = True\<rparr>
             [\<lparr>tool_name = ''read_query'', tool_description = ''sql''\<rparr>])
          [(''user'', ''hi'')],
        Emit (TextDelta (Some (Text ''o''))), Emit (TextDelta None),
        InvokeTool \<lparr>tool_name = ''search'', tool_description = ''web''\<rparr>
          (toolCall ''search'' ''c2''),
        Emit (ToolResult (Some ''c2'') (Some (Text ''search'')))]"
  by (simp add: example_defs calculatorTool_def)

subsection \<open>The calculator\<close>

lemmas round_defs = round_dyadic_def pack_def bitlen.simps trim.simps Let_def

lemma number_6: "of_int_number 6 = Finite 3 1"
  by (simp add: of_int_number_def round_defs)

lemma number_3: "of_int_number 3 = Finite 3 0"
  by (simp add: of_int_number_def round_defs)

lemma number_1: "of_int_number 1 = Finite 1 0"
  by (simp add: of_int_number_def round_defs)

lemma number_0: "of_int_number 0 = Zero False"
  by (simp add: of_int_number_def round_defs)

lemma number_6_div_3: "number_div (Finite 3 1) (Finite 3 0) = Finite 1 1"
proof -
  have "number_div (Finite 3 1) (Finite 3 0)
          = round_dyadic False 144115188075855872 (- 56) False"
    by (simp add: bitlen.simps Let_def)
  also have "\<dots> = Finite 1 1"
    by (simp add: round_defs)
  finally show ?thesis .
qed

lemma number_1_div_0: "number_div (Finite 1 0) (Zero False) = Infinity False"
  by simp

lemma ToString_2: "ToString (Finite 1 1) = ''2''"
proof -
  have r: "round_dyadic False 1 1 False = Finite 1 1"
    by (simp add: round_defs)
  have n: "decimal_exponent (numer 1 1) (denom 1) = 1"
    by (simp add: decimal_exponent_def numer_def denom_def digits.simps)
  have lo: "round_decimal 2 0 = Finite 1 1"
    by (simp add: round_decimal_def round_defs)
  have hi: "round_decimal 3 0 = Finite 3 0"
    by (simp add: round_decimal_def round_defs)
  have c: "candidate 1 1 1 1 = Some (2, 1)"
    by (simp add: candidate_def numer_def denom_def lo hi Let_def)
  have s: "shortest 1 1 1 1 = (2, 1)"
    by (simp add: shortest.simps c)
  have f: "format_decimal 2 1 = ''2''"
    by (simp add: format_decimal_def digits.simps Let_def)
  show ?thesis
    by (simp add: r n s f)
qed

text \<open>
  C8: the calculator, asked to divide 6 by 3, returns the string \<open>2\<close>; asked to divide 1 by 0,
  it returns the string \<open>Infinity\<close> and raises nothing.
\<close>

theorem calculator_divide_examples:
  "calculator ''divide'' (of_int_number 6) (of_int_number 3) = Inr ''2''
   \<and> calculator ''divide'' (of_int_number 1) (of_int_number 0) = Inr ''Infinity''"
proof -
  have d: "calculator ''divide'' x y = Inr (ToString (number_div x y))" for x y
    by (simp add: calculator_def)
  have i: "ToString (Infinity False) = ''Infinity''"
    by simp
  show ?thesis
    unfolding d number_6 number_3 number_1 number_0 number_6_div_3 number_1_div_0 ToString_2 i by simp
qed

end
